theory Spec2Isabelle
  imports Main "HOL-Library.Word"
begin

section \<open>Data model of the consensus reactor (consensus/reactor.go)\<close>

text \<open>
  Go's \<open>int\<close>, 64 bits wide on a 64-bit platform, is a 64-bit word: \<open>+\<close> wraps, equality
  is equality of words, and the order of the source (\<open><\<close>, \<open><=\<close> on \<open>int\<close>) is the order of
  \<open>sint\<close>.
\<close>

type_synonym go_int = "64 word"

text \<open>
  Modelled from the spec: \<open>RoundStepType\<close> and its constants are declared in
  consensus/state.go, which is not among the sources. The code only compares steps, so a
  step is represented by its position in the list of steps of section 3 of the
  specification (NewHeight, Propose, Prevote, Prevoting, Precommit, Precommitting, Commit).
\<close>

type_synonym RoundStepType = nat

definition RoundStepNewHeight :: RoundStepType where "RoundStepNewHeight = 1"
definition RoundStepPrevote :: RoundStepType where "RoundStepPrevote = 3"
definition RoundStepPrevoting :: RoundStepType where "RoundStepPrevoting = 4"
definition RoundStepPrecommitting :: RoundStepType where "RoundStepPrecommitting = 6"
definition RoundStepCommit :: RoundStepType where "RoundStepCommit = 7"

text \<open>
  The vote type is a byte in the source. Its two constants are declared in types/vote.go,
  which is not among the sources; the code distinguishes exactly three cases, kept here as
  constructors: a prevote, a precommit, and any other byte.
\<close>

datatype VoteType = VoteTypePrevote | VoteTypePrecommit | VoteTypeOther

text \<open>Modelled from the spec: \<open>types.IsVoteTypeValid\<close> (types/vote.go), true of the two
  vote types of the protocol.\<close>

definition IsVoteTypeValid :: "VoteType \<Rightarrow> bool" where
  "IsVoteTypeValid t = (t = VoteTypePrevote \<or> t = VoteTypePrecommit)"

datatype panic = PanicSanity string | IndexOutOfRange

subsection \<open>Bit-arrays behind pointers\<close>

text \<open>
  Modelled from the spec: \<open>cmn.BitArray\<close> belongs to the library tmlibs/common, which is not
  among the sources. Section 3 of the specification describes it as a bit-vector whose
  capacity is fixed at allocation, with \<open>Set\<close>, \<open>Sub\<close> (bitwise and-not) and \<open>PickRandom\<close>
  (some index among the set bits); a call on a nil bit-array has no side effect. The
  specification is silent on an index outside the capacity and on a capacity that is
  not positive: here such an index changes nothing and such a capacity gives no bits,
  and the statements below that speak of a bit or of an allocation are about indices
  within the capacity and capacities above 0.

  The fields of the peer state are pointers \<open>*cmn.BitArray\<close>. A pointer is \<open>None\<close> (nil)
  or the address of a cell of the heap; the heap is the list of the cells allocated so
  far, and allocation appends a cell.
\<close>

type_synonym BitArray = "bool list"
type_synonym addr = nat
type_synonym ptr = "addr option"
type_synonym heap = "BitArray list"

definition NewBitArray :: "go_int \<Rightarrow> heap \<Rightarrow> ptr \<times> heap" where
  "NewBitArray bits h = (Some (length h), h @ [replicate (nat (sint bits)) False])"

definition setIndex :: "BitArray \<Rightarrow> go_int \<Rightarrow> bool \<Rightarrow> BitArray" where
  "setIndex bA i v =
     (if 0 \<le> sint i \<and> nat (sint i) < length bA then bA[nat (sint i) := v] else bA)"

definition SetIndex :: "ptr \<Rightarrow> go_int \<Rightarrow> bool \<Rightarrow> heap \<Rightarrow> heap" where
  "SetIndex p i v h = (case p of None \<Rightarrow> h | Some a \<Rightarrow> h[a := setIndex (h ! a) i v])"

definition Sub :: "BitArray option \<Rightarrow> BitArray \<Rightarrow> BitArray option" where
  "Sub bA other =
     (case bA of
        None \<Rightarrow> None
      | Some b \<Rightarrow>
          Some (map (\<lambda>i. b ! i \<and> \<not> (i < length other \<and> other ! i)) [0..<length b]))"

definition PickRandom :: "nat \<Rightarrow> BitArray option \<Rightarrow> go_int \<times> bool" where
  "PickRandom rnd bA =
     (case bA of
        None \<Rightarrow> (0, False)
      | Some b \<Rightarrow>
          (let trues = filter (\<lambda>i. b ! i) [0..<length b]
           in if trues = [] then (0, False)
              else (of_nat (trues ! (rnd mod length trues)), True)))"

subsection \<open>PeerRoundState\<close>

record PartSetHeader =
  Total :: go_int
  Hash :: "8 word list"

text \<open>\<open>StartTime\<close> is a point in time, counted in nanoseconds.\<close>

record PeerRoundState =
  Height :: go_int
  Round :: go_int
  Step :: RoundStepType
  StartTime :: int
  Proposal :: bool
  ProposalBlockPartsHeader :: PartSetHeader
  ProposalBlockParts :: ptr
  ProposalPOLRound :: go_int
  ProposalPOL :: ptr
  Prevotes :: ptr
  Precommits :: ptr
  LastCommitRound :: go_int
  LastCommit :: ptr
  CatchupCommitRound :: go_int
  CatchupCommit :: ptr

text \<open>\<open>NewPeerState\<close>: the zero value of every field but the four rounds.\<close>

definition NewPeerState :: PeerRoundState where
  "NewPeerState =
     \<lparr>Height = 0, Round = - 1, Step = 0, StartTime = 0, Proposal = False,
      ProposalBlockPartsHeader = \<lparr>Total = 0, Hash = []\<rparr>, ProposalBlockParts = None,
      ProposalPOLRound = - 1, ProposalPOL = None, Prevotes = None, Precommits = None,
      LastCommitRound = - 1, LastCommit = None, CatchupCommitRound = - 1,
      CatchupCommit = None\<rparr>"

subsection \<open>Routing a vote to a bit-array\<close>

definition getVoteBitArray :: "go_int \<Rightarrow> go_int \<Rightarrow> VoteType \<Rightarrow> PeerRoundState \<Rightarrow> panic + ptr" where
  "getVoteBitArray height round typ ps =
     (if \<not> IsVoteTypeValid typ then Inl (PanicSanity ''Invalid vote type'')
      else if Height ps = height then
        (if Round ps = round \<and> typ = VoteTypePrevote then Inr (Prevotes ps)
         else if Round ps = round \<and> typ = VoteTypePrecommit then Inr (Precommits ps)
         else if CatchupCommitRound ps = round \<and> typ = VoteTypePrevote then Inr None
         else if CatchupCommitRound ps = round \<and> typ = VoteTypePrecommit
           then Inr (CatchupCommit ps)
         else if ProposalPOLRound ps = round \<and> typ = VoteTypePrevote
           then Inr (ProposalPOL ps)
         else if ProposalPOLRound ps = round \<and> typ = VoteTypePrecommit then Inr None
         else Inr None)
      else if Height ps = height + 1 then
        (if LastCommitRound ps = round \<and> typ = VoteTypePrevote then Inr None
         else if LastCommitRound ps = round \<and> typ = VoteTypePrecommit
           then Inr (LastCommit ps)
         else Inr None)
      else Inr None)"

definition ensureCatchupCommitRound ::
  "go_int \<Rightarrow> go_int \<Rightarrow> go_int \<Rightarrow> PeerRoundState \<times> heap \<Rightarrow> PeerRoundState \<times> heap" where
  "ensureCatchupCommitRound height round numValidators w =
     (case w of (ps, h) \<Rightarrow>
        if Height ps \<noteq> height then (ps, h)
        else if CatchupCommitRound ps = round then (ps, h)
        else
          (let ps1 = ps\<lparr>CatchupCommitRound := round\<rparr>
           in if round = Round ps1 then (ps1\<lparr>CatchupCommit := Precommits ps1\<rparr>, h)
              else (case NewBitArray numValidators h of
                      (p, h') \<Rightarrow> (ps1\<lparr>CatchupCommit := p\<rparr>, h'))))"

text \<open>One statement \<open>if p == nil { p = cmn.NewBitArray(n) }\<close>: the new value of \<open>p\<close>, and the heap.\<close>

definition allocIfNil :: "ptr \<Rightarrow> go_int \<Rightarrow> heap \<Rightarrow> ptr \<times> heap" where
  "allocIfNil p numValidators h = (if p = None then NewBitArray numValidators h else (p, h))"

definition ensureVoteBitArrays ::
  "go_int \<Rightarrow> go_int \<Rightarrow> PeerRoundState \<times> heap \<Rightarrow> PeerRoundState \<times> heap" where
  "ensureVoteBitArrays height numValidators w =
     (case w of (ps, h) \<Rightarrow>
        if Height ps = height then
          (case allocIfNil (Prevotes ps) numValidators h of (a1, h1) \<Rightarrow>
           case allocIfNil (Precommits ps) numValidators h1 of (a2, h2) \<Rightarrow>
           case allocIfNil (CatchupCommit ps) numValidators h2 of (a3, h3) \<Rightarrow>
           case allocIfNil (ProposalPOL ps) numValidators h3 of (a4, h4) \<Rightarrow>
             (ps\<lparr>Prevotes := a1, Precommits := a2, CatchupCommit := a3, ProposalPOL := a4\<rparr>,
              h4))
        else if Height ps = height + 1 then
          (case allocIfNil (LastCommit ps) numValidators h of
             (a, h') \<Rightarrow> (ps\<lparr>LastCommit := a\<rparr>, h'))
        else (ps, h))"

definition setHasVote ::
  "go_int \<Rightarrow> go_int \<Rightarrow> VoteType \<Rightarrow> go_int \<Rightarrow> PeerRoundState \<times> heap
     \<Rightarrow> panic + PeerRoundState \<times> heap" where
  "setHasVote height round typ index w =
     (case w of (ps, h) \<Rightarrow>
        (case getVoteBitArray height round typ ps of
           Inl e \<Rightarrow> Inl e
         | Inr p \<Rightarrow> Inr (ps, SetIndex p index True h)))"

record Vote =
  vote_Height :: go_int
  vote_Round :: go_int
  vote_Type :: VoteType
  vote_ValidatorIndex :: go_int

definition SetHasVote :: "Vote \<Rightarrow> PeerRoundState \<times> heap \<Rightarrow> panic + PeerRoundState \<times> heap" where
  "SetHasVote vote w =
     setHasVote (vote_Height vote) (vote_Round vote) (vote_Type vote) (vote_ValidatorIndex vote) w"

subsection \<open>Picking a vote to send\<close>

text \<open>
  \<open>types.VoteSetReader\<close> is an interface; a value of it is represented by the answers of
  its methods. \<open>vs_IsNil\<close> tells whether the pointer behind the interface is nil (the
  comparison \<open>polPrevotes != nil\<close> of \<open>gossipVotesForHeight\<close>).
\<close>

record VoteSetReader =
  vs_IsNil :: bool
  vs_Height :: go_int
  vs_Round :: go_int
  vs_Type :: VoteType
  vs_Size :: go_int
  vs_IsCommit :: bool
  vs_BitArray :: "BitArray option"
  vs_GetByIndex :: "go_int \<Rightarrow> Vote option"

text \<open>\<open>rnd\<close> is the draw of the random generator that \<open>PickRandom\<close> uses.\<close>

definition PickVoteToSend ::
  "nat \<Rightarrow> VoteSetReader \<Rightarrow> PeerRoundState \<times> heap
     \<Rightarrow> panic + (Vote option \<times> bool) \<times> PeerRoundState \<times> heap" where
  "PickVoteToSend rnd votes w =
     (if vs_Size votes = 0 then Inr ((None, False), w)
      else
        (let height = vs_Height votes; round = vs_Round votes; typ = vs_Type votes;
             size = vs_Size votes;
             w1 = (if vs_IsCommit votes then ensureCatchupCommitRound height round size w
                   else w);
             w2 = ensureVoteBitArrays height size w1
         in case getVoteBitArray height round typ (fst w2) of
              Inl e \<Rightarrow> Inl e
            | Inr None \<Rightarrow> Inr ((None, False), w2)
            | Inr (Some a) \<Rightarrow>
                (case PickRandom rnd (Sub (vs_BitArray votes) (snd w2 ! a)) of
                   (index, True) \<Rightarrow>
                     (case setHasVote height round typ index w2 of
                        Inl e \<Rightarrow> Inl e
                      | Inr w3 \<Rightarrow> Inr ((vs_GetByIndex votes index, True), w3))
                 | (index, False) \<Rightarrow> Inr ((None, False), w2))))"


subsection \<open>Messages of the state channel\<close>

record NewRoundStepMessage =
  nrs_Height :: go_int
  nrs_Round :: go_int
  nrs_Step :: RoundStepType
  nrs_SecondsSinceStartTime :: go_int
  nrs_LastCommitRound :: go_int

record CommitStepMessage =
  cs_Height :: go_int
  cs_BlockPartsHeader :: PartSetHeader
  cs_BlockParts :: ptr

record HasVoteMessage =
  hv_Height :: go_int
  hv_Round :: go_int
  hv_Type :: VoteType
  hv_Index :: go_int

text \<open>
  Modelled from the spec: \<open>CompareHRS\<close> is called by \<open>ApplyNewRoundStepMessage\<close> and defined
  outside the sources. The specification has it compare \<open>(H, R, Step)\<close> triples in
  lexicographic order; the result is negative, zero or positive.
\<close>

definition CompareHRS ::
  "go_int \<Rightarrow> go_int \<Rightarrow> RoundStepType \<Rightarrow> go_int \<Rightarrow> go_int \<Rightarrow> RoundStepType \<Rightarrow> int" where
  "CompareHRS h1 r1 s1 h2 r2 s2 =
     (if sint h1 < sint h2 then - 1
      else if sint h1 > sint h2 then 1
      else if sint r1 < sint r2 then - 1
      else if sint r1 > sint r2 then 1
      else if s1 < s2 then - 1
      else if s1 > s2 then 1
      else 0)"

text \<open>
  \<open>now\<close> is the value of \<open>time.Now()\<close>, in nanoseconds. A \<open>time.Duration\<close> is an int64, so
  the product \<open>-1 * time.Duration(msg.SecondsSinceStartTime) * time.Second\<close> is a product of
  64-bit words and wraps; \<open>Add\<close> moves \<open>now\<close> by its signed value. The function moves
  pointers and touches no bit-array, so the heap is not an argument.
\<close>

definition ApplyNewRoundStepMessage ::
  "int \<Rightarrow> NewRoundStepMessage \<Rightarrow> PeerRoundState \<Rightarrow> PeerRoundState" where
  "ApplyNewRoundStepMessage now msg ps =
     (if CompareHRS (nrs_Height msg) (nrs_Round msg) (nrs_Step msg)
           (Height ps) (Round ps) (Step ps) \<le> 0 then ps
      else
        (let psHeight = Height ps;
             psRound = Round ps;
             psCatchupCommitRound = CatchupCommitRound ps;
             psCatchupCommit = CatchupCommit ps;
             startTime =
               now + sint ((- 1) * nrs_SecondsSinceStartTime msg * (1000000000 :: 64 word));
             ps1 = ps\<lparr>Height := nrs_Height msg, Round := nrs_Round msg,
                      Step := nrs_Step msg, StartTime := startTime\<rparr>;
             ps2 = (if psHeight \<noteq> nrs_Height msg \<or> psRound \<noteq> nrs_Round msg
                    then ps1\<lparr>Proposal := False,
                             ProposalBlockPartsHeader := \<lparr>Total = 0, Hash = []\<rparr>,
                             ProposalBlockParts := None,
                             ProposalPOLRound := - 1,
                             ProposalPOL := None,
                             Prevotes := None,
                             Precommits := None\<rparr>
                    else ps1);
             ps3 = (if psHeight = nrs_Height msg \<and> psRound \<noteq> nrs_Round msg
                       \<and> nrs_Round msg = psCatchupCommitRound
                    then ps2\<lparr>Precommits := psCatchupCommit\<rparr>
                    else ps2)
         in if psHeight \<noteq> nrs_Height msg then
              (let ps4 = (if psHeight + 1 = nrs_Height msg \<and> psRound = nrs_LastCommitRound msg
                          then ps3\<lparr>LastCommitRound := nrs_LastCommitRound msg,
                                   LastCommit := Precommits ps3\<rparr>
                          else ps3\<lparr>LastCommitRound := nrs_LastCommitRound msg,
                                   LastCommit := None\<rparr>)
               in ps4\<lparr>CatchupCommitRound := - 1, CatchupCommit := None\<rparr>)
            else ps3))"

definition ApplyCommitStepMessage :: "CommitStepMessage \<Rightarrow> PeerRoundState \<Rightarrow> PeerRoundState" where
  "ApplyCommitStepMessage msg ps =
     (if Height ps \<noteq> cs_Height msg then ps
      else ps\<lparr>ProposalBlockPartsHeader := cs_BlockPartsHeader msg,
              ProposalBlockParts := cs_BlockParts msg\<rparr>)"

definition ApplyHasVoteMessage ::
  "HasVoteMessage \<Rightarrow> PeerRoundState \<times> heap \<Rightarrow> panic + PeerRoundState \<times> heap" where
  "ApplyHasVoteMessage msg w =
     (if Height (fst w) \<noteq> hv_Height msg then Inr w
      else setHasVote (hv_Height msg) (hv_Round msg) (hv_Type msg) (hv_Index msg) w)"

text \<open>
  The state-channel branch of \<open>Receive\<close>, as far as the peer state goes: the three
  messages that reach the peer state, and the two (\<open>VoteSetMaj23\<close>, \<open>ProposalHeartbeat\<close>)
  that do not touch it. Each message comes with the clock reading at its arrival.
\<close>

datatype StateChannelMessage =
    NewRoundStep NewRoundStepMessage
  | CommitStep CommitStepMessage
  | HasVote HasVoteMessage
  | VoteSetMaj23
  | ProposalHeartbeat

fun ReceiveStateChannel ::
  "int \<times> StateChannelMessage \<Rightarrow> PeerRoundState \<times> heap \<Rightarrow> panic + PeerRoundState \<times> heap" where
  "ReceiveStateChannel (now, NewRoundStep msg) (ps, h) =
     Inr (ApplyNewRoundStepMessage now msg ps, h)"
| "ReceiveStateChannel (now, CommitStep msg) (ps, h) = Inr (ApplyCommitStepMessage msg ps, h)"
| "ReceiveStateChannel (now, HasVote msg) (ps, h) = ApplyHasVoteMessage msg (ps, h)"
| "ReceiveStateChannel (now, VoteSetMaj23) (ps, h) = Inr (ps, h)"
| "ReceiveStateChannel (now, ProposalHeartbeat) (ps, h) = Inr (ps, h)"

text \<open>
  The peer states that a sequence of messages goes through, the first one included; a
  panic ends the sequence.
\<close>

fun ReceiveAll ::
  "(int \<times> StateChannelMessage) list \<Rightarrow> PeerRoundState \<times> heap \<Rightarrow> (PeerRoundState \<times> heap) list" where
  "ReceiveAll [] w = [w]"
| "ReceiveAll (m # ms) w =
     w # (case ReceiveStateChannel m w of Inl e \<Rightarrow> [] | Inr w' \<Rightarrow> ReceiveAll ms w')"

text \<open>The lexicographic order on triples \<open>(Height, Round, Step)\<close>.\<close>

definition hrs_le ::
  "go_int \<times> go_int \<times> RoundStepType \<Rightarrow> go_int \<times> go_int \<times> RoundStepType \<Rightarrow> bool" where
  "hrs_le a b =
     (case a of (h1, r1, s1) \<Rightarrow> case b of (h2, r2, s2) \<Rightarrow>
        sint h1 < sint h2
        \<or> (h1 = h2 \<and> (sint r1 < sint r2 \<or> (r1 = r2 \<and> s1 \<le> s2))))"

definition hrs :: "PeerRoundState \<Rightarrow> go_int \<times> go_int \<times> RoundStepType" where
  "hrs ps = (Height ps, Round ps, Step ps)"

section \<open>The vote-routing matrix of the specification\<close>

text \<open>
  The table of section 4.3 of the specification, row by row, each row with its type
  column; the first row that matches gives the bit-array.
\<close>

definition routing_matrix :: "go_int \<Rightarrow> go_int \<Rightarrow> VoteType \<Rightarrow> PeerRoundState \<Rightarrow> ptr" where
  "routing_matrix H R typ p =
     (if Height p = H \<and> Round p = R \<and> typ = VoteTypePrevote then Prevotes p
      else if Height p = H \<and> Round p = R \<and> typ = VoteTypePrecommit then Precommits p
      else if Height p = H \<and> CatchupCommitRound p = R \<and> typ = VoteTypePrecommit
        then CatchupCommit p
      else if Height p = H \<and> ProposalPOLRound p = R \<and> typ = VoteTypePrevote
        then ProposalPOL p
      else if Height p = H + 1 \<and> LastCommitRound p = R \<and> typ = VoteTypePrecommit
        then LastCommit p
      else None)"

text \<open>
  The same table read the way \<open>getVoteBitArray\<close> goes through it: at the peer's height the
  first of \<open>Round\<close>, \<open>CatchupCommitRound\<close>, \<open>ProposalPOLRound\<close> that equals the round of the
  vote decides alone, and the type is looked at only afterwards.
\<close>

definition routing_in_order :: "go_int \<Rightarrow> go_int \<Rightarrow> VoteType \<Rightarrow> PeerRoundState \<Rightarrow> ptr" where
  "routing_in_order H R typ p =
     (if Height p = H then
        (if Round p = R then (if typ = VoteTypePrevote then Prevotes p else Precommits p)
         else if CatchupCommitRound p = R
           then (if typ = VoteTypePrecommit then CatchupCommit p else None)
         else if ProposalPOLRound p = R
           then (if typ = VoteTypePrevote then ProposalPOL p else None)
         else None)
      else if Height p = H + 1 \<and> LastCommitRound p = R \<and> typ = VoteTypePrecommit
        then LastCommit p
      else None)"

section \<open>States and messages of the scenarios\<close>

text \<open>Scenario 3 of the specification: the peer at (10, 3, Commit), its precommits in
  cell 0 of the heap, and a \<open>NewRoundStep\<close> for round 0 of a later height with
  \<open>LastCommitRound = 3\<close>.\<close>

definition scenario3_peer :: PeerRoundState where
  "scenario3_peer =
     NewPeerState\<lparr>Height := 10, Round := 3, Step := RoundStepCommit, Precommits := Some 0\<rparr>"

definition newHeightMessage :: "go_int \<Rightarrow> NewRoundStepMessage" where
  "newHeightMessage H =
     \<lparr>nrs_Height = H, nrs_Round = 0, nrs_Step = RoundStepNewHeight,
      nrs_SecondsSinceStartTime = 0, nrs_LastCommitRound = 3\<rparr>"

text \<open>A peer at height 1, round 2, whose \<open>CatchupCommitRound\<close> and \<open>ProposalPOLRound\<close> are
  both 0, with its \<open>ProposalPOL\<close> in cell 0 of the heap.\<close>

definition routing_peer :: PeerRoundState where
  "routing_peer =
     NewPeerState\<lparr>Height := 1, Round := 2, ProposalPOLRound := 0, ProposalPOL := Some 0,
                  CatchupCommitRound := 0\<rparr>"

text \<open>Scenario 4 of the specification: the peer at (10, 2) with its precommits in cell 0
  of the heap, and a commit of round 2 over two validators.\<close>

definition scenario4_peer :: PeerRoundState where
  "scenario4_peer = NewPeerState\<lparr>Height := 10, Round := 2, Precommits := Some 0\<rparr>"

definition scenario4_commit :: VoteSetReader where
  "scenario4_commit =
     \<lparr>vs_IsNil = False, vs_Height = 10, vs_Round = 2, vs_Type = VoteTypePrecommit,
      vs_Size = 2, vs_IsCommit = True, vs_BitArray = Some [True, False],
      vs_GetByIndex = (\<lambda>i. Some \<lparr>vote_Height = 10, vote_Round = 2,
                                  vote_Type = VoteTypePrecommit, vote_ValidatorIndex = i\<rparr>)\<rparr>"

section \<open>GetRoundState and its callers\<close>

text \<open>
  \<open>GetRoundState\<close> returns a pointer to a copy of the struct, so the structs too live in a
  store: \<open>structs\<close> holds the \<open>PeerRoundState\<close> values that exist, the one embedded in a
  \<open>PeerState\<close> among them, and \<open>arrays\<close> is the heap of the bit-arrays. The statement
  \<open>prs := ps.PeerRoundState\<close> copies the fields, pointers included, into a new struct.
\<close>

record store =
  structs :: "PeerRoundState list"
  arrays :: heap

definition GetRoundState :: "addr \<Rightarrow> store \<Rightarrow> addr \<times> store" where
  "GetRoundState ps st =
     (let prs = structs st ! ps
      in (length (structs st), st\<lparr>structs := structs st @ [prs]\<rparr>))"

text \<open>
  What a caller that holds the returned pointer \<open>q\<close> can do with it: assign to fields of
  \<open>*q\<close>, or mutate, in place, a bit-array that a field of \<open>*q\<close> points to.
\<close>

datatype mutation =
    AssignField "PeerRoundState \<Rightarrow> PeerRoundState"
  | SetBit "PeerRoundState \<Rightarrow> ptr" go_int bool

fun mutate :: "addr \<Rightarrow> store \<Rightarrow> mutation \<Rightarrow> store" where
  "mutate q st (AssignField f) = st\<lparr>structs := (structs st)[q := f (structs st ! q)]\<rparr>"
| "mutate q st (SetBit field i v) =
     st\<lparr>arrays := SetIndex (field (structs st ! q)) i v (arrays st)\<rparr>"

fun isAssignField :: "mutation \<Rightarrow> bool" where
  "isAssignField (AssignField f) = True"
| "isAssignField (SetBit field i v) = False"

text \<open>What the peer state at address \<open>ps\<close> holds: its fields, and the contents of the
  bit-arrays its six pointers lead to.\<close>

definition deref :: "heap \<Rightarrow> ptr \<Rightarrow> BitArray option" where
  "deref h p = (case p of None \<Rightarrow> None | Some a \<Rightarrow> Some (h ! a))"

definition peer_view :: "addr \<Rightarrow> store \<Rightarrow> PeerRoundState \<times> BitArray option list" where
  "peer_view ps st =
     (let s = structs st ! ps
      in (s, map (deref (arrays st))
               [ProposalBlockParts s, ProposalPOL s, Prevotes s, Precommits s, LastCommit s,
                CatchupCommit s]))"

text \<open>A store with one peer state, whose prevotes are the one-bit array in cell 0.\<close>

definition snapshot_store :: store where
  "snapshot_store = \<lparr>structs = [NewPeerState\<lparr>Prevotes := Some 0\<rparr>], arrays = [[False]]\<rparr>"

section \<open>The buffer of transaction events (TxEventBuffer)\<close>

text \<open>
  The field \<open>next\<close> is a \<open>TxEventPublisher\<close>: its method \<open>PublishEventTx\<close> takes an event,
  may change the state \<open>'s\<close> of the publisher and returns an error or nil. It is a
  parameter of \<open>Flush\<close>, the only method that calls it. An error is its message.
\<close>

type_synonym ('e, 's) publisher = "'e \<Rightarrow> 's \<Rightarrow> string option \<times> 's"

record 'e TxEventBuffer =
  events :: "'e list"

definition NewTxEventBuffer :: "'e TxEventBuffer" where
  "NewTxEventBuffer = \<lparr>events = []\<rparr>"

definition PublishEventTx :: "'e \<Rightarrow> 'e TxEventBuffer \<Rightarrow> string option \<times> 'e TxEventBuffer" where
  "PublishEventTx e b = (None, b\<lparr>events := events b @ [e]\<rparr>)"

text \<open>The loop \<open>for _, e := range b.events\<close> of \<open>Flush\<close>, left at the first error.\<close>

fun flushLoop :: "('e, 's) publisher \<Rightarrow> 'e list \<Rightarrow> 's \<Rightarrow> string option \<times> 's" where
  "flushLoop nxt [] s = (None, s)"
| "flushLoop nxt (e # es) s =
     (case nxt e s of
        (Some err, s') \<Rightarrow> (Some err, s')
      | (None, s') \<Rightarrow> flushLoop nxt es s')"

definition Flush ::
  "('e, 's) publisher \<Rightarrow> 'e TxEventBuffer \<Rightarrow> 's \<Rightarrow> string option \<times> 'e TxEventBuffer \<times> 's" where
  "Flush nxt b s =
     (case flushLoop nxt (events b) s of
        (Some err, s') \<Rightarrow> (Some err, b, s')
      | (None, s') \<Rightarrow> (None, b\<lparr>events := []\<rparr>, s'))"

text \<open>
  To observe what reaches a publisher, \<open>logged nxt\<close> is the publisher \<open>nxt\<close> that also
  keeps the list of the calls it received, each with its answer.
\<close>

definition logged ::
  "('e, 's) publisher \<Rightarrow> ('e, 's \<times> ('e \<times> string option) list) publisher" where
  "logged nxt e sl =
     (case nxt e (fst sl) of (r, s') \<Rightarrow> (r, s', snd sl @ [(e, r)]))"

text \<open>A sequence of calls on the buffer, by its owner.\<close>

datatype 'e bufferCall = CallPublishEventTx 'e | CallFlush

fun runCalls ::
  "('e, 's) publisher \<Rightarrow> 'e bufferCall list \<Rightarrow> 'e TxEventBuffer \<times> 's
     \<Rightarrow> 'e TxEventBuffer \<times> 's" where
  "runCalls nxt [] w = w"
| "runCalls nxt (CallPublishEventTx e # cs) w =
     runCalls nxt cs (snd (PublishEventTx e (fst w)), snd w)"
| "runCalls nxt (CallFlush # cs) w = runCalls nxt cs (snd (Flush nxt (fst w) (snd w)))"

text \<open>\<open>EventBus.PublishEventTx\<close> (types/event_bus.go) always returns nil; so does
  \<open>alwaysNil\<close>. \<open>failsOn x\<close> refuses the event \<open>x\<close>.\<close>

definition alwaysNil :: "('e, unit) publisher" where
  "alwaysNil e s = (None, s)"

definition failsOn :: "'e \<Rightarrow> ('e, unit) publisher" where
  "failsOn x e s = (if e = x then (Some ''refused'', s) else (None, s))"

section \<open>Gossiping the votes of one height\<close>













section \<open>Decoding a message\<close>

type_synonym byte = "8 word"

definition msgTypeNewRoundStep :: byte where "msgTypeNewRoundStep = 0x01"
definition msgTypeCommitStep :: byte where "msgTypeCommitStep = 0x02"
definition msgTypeProposal :: byte where "msgTypeProposal = 0x11"
definition msgTypeProposalPOL :: byte where "msgTypeProposalPOL = 0x12"
definition msgTypeBlockPart :: byte where "msgTypeBlockPart = 0x13"
definition msgTypeVote :: byte where "msgTypeVote = 0x14"
definition msgTypeHasVote :: byte where "msgTypeHasVote = 0x15"
definition msgTypeVoteSetMaj23 :: byte where "msgTypeVoteSetMaj23 = 0x16"
definition msgTypeVoteSetBits :: byte where "msgTypeVoteSetBits = 0x17"
definition msgTypeProposalHeartbeat :: byte where "msgTypeProposalHeartbeat = 0x20"

text \<open>The types that \<open>wire.RegisterInterface\<close> is given.\<close>

definition registeredTypes :: "byte list" where
  "registeredTypes =
     [msgTypeNewRoundStep, msgTypeCommitStep, msgTypeProposal, msgTypeProposalPOL,
      msgTypeBlockPart, msgTypeVote, msgTypeHasVote, msgTypeVoteSetMaj23, msgTypeVoteSetBits,
      msgTypeProposalHeartbeat]"

definition maxConsensusMessageSize :: nat where
  "maxConsensusMessageSize = 1048576"

datatype DecodeError = ErrEOF | ErrUnknownType | ErrBinaryReadOverflow | ErrMalformed

text \<open>
  Modelled from the spec: \<open>wire.ReadBinary\<close> belongs to the library go-wire, which is not
  among the sources. By section 4.1 of the specification the decoder reads the tag, then
  a body bounded in length; input over the limit and an unknown tag fail with an error,
  which is stored in \<open>*err\<close>. The decoders of the bodies of the registered types are the
  parameter \<open>body\<close>.
\<close>

definition ReadBinary ::
  "(byte \<Rightarrow> byte list \<Rightarrow> 'm option) \<Rightarrow> byte list \<Rightarrow> nat \<Rightarrow> 'm option \<times> DecodeError option" where
  "ReadBinary body r lmt =
     (case r of
        [] \<Rightarrow> (None, Some ErrEOF)
      | tag # rest \<Rightarrow>
          if tag \<notin> set registeredTypes then (None, Some ErrUnknownType)
          else if lmt < length r then (None, Some ErrBinaryReadOverflow)
          else (case body tag rest of
                  None \<Rightarrow> (None, Some ErrMalformed)
                | Some m \<Rightarrow> (Some m, None)))"

text \<open>\<open>msgType = bz[0]\<close> comes first; Go panics there when \<open>bz\<close> is empty.\<close>

definition DecodeMessage ::
  "(byte \<Rightarrow> byte list \<Rightarrow> 'm option) \<Rightarrow> byte list
     \<Rightarrow> panic + byte \<times> 'm option \<times> DecodeError option" where
  "DecodeMessage body bz =
     (case bz of
        [] \<Rightarrow> Inl IndexOutOfRange
      | msgType # _ \<Rightarrow>
          (case ReadBinary body bz maxConsensusMessageSize of
             (msg, err) \<Rightarrow> Inr (msgType, msg, err)))"

section \<open>BroadcastTxCommit (rpc/core/mempool.go)\<close>





record EventDataTx =
  edt_Height :: go_int
  edt_Tx :: "byte list"
  edt_Data :: "byte list"
  edt_Log :: string
  edt_Code :: "32 word"
  edt_Error :: string









section \<open>The order on (Height, Round, Step)\<close>

lemma CompareHRS_le0:
  "(CompareHRS h1 r1 s1 h2 r2 s2 \<le> 0) = hrs_le (h1, r1, s1) (h2, r2, s2)"
  by (auto simp: CompareHRS_def hrs_le_def word_eq_iff_signed [where ?'a = int])

lemma hrs_le_refl: "hrs_le a a"
  by (auto simp: hrs_le_def split: prod.splits)

lemma hrs_le_trans: "hrs_le a b \<Longrightarrow> hrs_le b c \<Longrightarrow> hrs_le a c"
  by (auto simp: hrs_le_def split: prod.splits)

lemma hrs_le_total: "hrs_le a b \<or> hrs_le b a"
  by (auto simp: hrs_le_def word_eq_iff_signed [where ?'a = int] split: prod.splits)

lemma hrs_Apply:
  "hrs (ApplyNewRoundStepMessage now msg ps) =
     (if hrs_le (nrs_Height msg, nrs_Round msg, nrs_Step msg) (hrs ps) then hrs ps
      else (nrs_Height msg, nrs_Round msg, nrs_Step msg))"
  by (simp add: ApplyNewRoundStepMessage_def CompareHRS_le0 hrs_def Let_def)

lemma hrs_le_Apply: "hrs_le (hrs ps) (hrs (ApplyNewRoundStepMessage now msg ps))"
  using hrs_le_total [of "(nrs_Height msg, nrs_Round msg, nrs_Step msg)" "hrs ps"]
  by (auto simp: hrs_Apply hrs_le_refl)

lemma hrs_ApplyCommitStep: "hrs (ApplyCommitStepMessage msg ps) = hrs ps"
  by (simp add: ApplyCommitStepMessage_def hrs_def)

lemma setHasVote_ps: "setHasVote a b c d w = Inr w' \<Longrightarrow> fst w' = fst w"
  by (auto simp: setHasVote_def split: prod.splits sum.splits)

lemma Receive_hrs:
  assumes r: "ReceiveStateChannel m w = Inr w'"
  shows "hrs_le (hrs (fst w)) (hrs (fst w'))"
proof (cases m)
  case (Pair now msg)
  obtain ps h where w: "w = (ps, h)" by (cases w)
  show ?thesis
  proof (cases msg)
    case (NewRoundStep x)
    with r Pair w show ?thesis by (auto simp: hrs_le_Apply)
  next
    case (CommitStep x)
    with r Pair w show ?thesis by (auto simp: hrs_ApplyCommitStep hrs_le_refl)
  next
    case (HasVote x)
    with r Pair w show ?thesis
      by (auto simp: ApplyHasVoteMessage_def hrs_le_refl split: if_splits dest!: setHasVote_ps)
  next
    case VoteSetMaj23
    with r Pair w show ?thesis by (auto simp: hrs_le_refl)
  next
    case ProposalHeartbeat
    with r Pair w show ?thesis by (auto simp: hrs_le_refl)
  qed
qed

lemma ReceiveAll_ge:
  "x \<in> set (ReceiveAll ms w) \<Longrightarrow> hrs_le (hrs (fst w)) (hrs (fst x))"
proof (induction ms arbitrary: w)
  case Nil
  then show ?case by (simp add: hrs_le_refl)
next
  case (Cons m ms)
  show ?case
  proof (cases "x = w")
    case True
    then show ?thesis by (simp add: hrs_le_refl)
  next
    case False
    with Cons.prems obtain w' where r: "ReceiveStateChannel m w = Inr w'"
      and x: "x \<in> set (ReceiveAll ms w')"
      by (cases "ReceiveStateChannel m w") auto
    from Receive_hrs [OF r] Cons.IH [OF x] show ?thesis by (rule hrs_le_trans)
  qed
qed

lemma ReceiveAll_sorted:
  "sorted_wrt (\<lambda>a b. hrs_le (hrs (fst a)) (hrs (fst b))) (ReceiveAll ms w)"
proof (induction ms arbitrary: w)
  case Nil
  then show ?case by simp
next
  case (Cons m ms)
  show ?case
  proof (cases "ReceiveStateChannel m w")
    case (Inl e)
    then show ?thesis by simp
  next
    case (Inr w')
    have "\<And>x. x \<in> set (ReceiveAll ms w') \<Longrightarrow> hrs_le (hrs (fst w)) (hrs (fst x))"
      using ReceiveAll_ge [of _ ms w'] Receive_hrs [OF Inr] hrs_le_trans by blast
    with Inr Cons.IH [of w'] show ?thesis by simp
  qed
qed

text \<open>
  Claim C1. A \<open>NewRoundStepMessage\<close> whose \<open>(Height, Round, Step)\<close> is less than or equal to
  the peer's, in lexicographic order, leaves the whole \<open>PeerRoundState\<close> unchanged; any
  other one moves the peer to a greater triple; and along every sequence of messages of
  the state channel the peer's \<open>(Height, Round, Step)\<close> never decreases.
\<close>

theorem HRS_monotone:
  "(hrs_le (nrs_Height msg, nrs_Round msg, nrs_Step msg) (hrs ps)
      \<longrightarrow> ApplyNewRoundStepMessage now msg ps = ps)
   \<and> hrs_le (hrs ps) (hrs (ApplyNewRoundStepMessage now msg ps))
   \<and> sorted_wrt (\<lambda>a b. hrs_le (hrs (fst a)) (hrs (fst b))) (ReceiveAll ms (ps, h))"
  by (simp add: ReceiveAll_sorted hrs_le_Apply)
    (simp add: ApplyNewRoundStepMessage_def CompareHRS_le0 hrs_def)

text \<open>
  The peer at (5, 2, Prevote) receives \<open>NewRoundStep(H=5, R=1, Step=Commit)\<close> and stays
  where it is.
\<close>

theorem HRS_monotone_witness:
  "hrs_le (5, 1, RoundStepCommit)
     (hrs (NewPeerState\<lparr>Height := 5, Round := 2, Step := RoundStepPrevote\<rparr>))
   \<and> ApplyNewRoundStepMessage 0
        \<lparr>nrs_Height = 5, nrs_Round = 1, nrs_Step = RoundStepCommit,
         nrs_SecondsSinceStartTime = 0, nrs_LastCommitRound = 0\<rparr>
        (NewPeerState\<lparr>Height := 5, Round := 2, Step := RoundStepPrevote\<rparr>)
      = NewPeerState\<lparr>Height := 5, Round := 2, Step := RoundStepPrevote\<rparr>"
proof -
  have le: "hrs_le (5, 1, RoundStepCommit)
     (hrs (NewPeerState\<lparr>Height := 5, Round := 2, Step := RoundStepPrevote\<rparr>))"
    by (simp add: hrs_le_def hrs_def)
  from le HRS_monotone [of
      "\<lparr>nrs_Height = 5, nrs_Round = 1, nrs_Step = RoundStepCommit,
        nrs_SecondsSinceStartTime = 0, nrs_LastCommitRound = 0\<rparr>"
      "NewPeerState\<lparr>Height := 5, Round := 2, Step := RoundStepPrevote\<rparr>" 0 "[]" "[]"]
  show ?thesis by simp
qed

section \<open>Picking a vote from an empty vote-set\<close>

text \<open>
  Claim C10. When \<open>votes.Size()\<close> is 0, \<open>PickVoteToSend\<close> returns \<open>(nil, false)\<close> and the
  peer state and the heap are what they were: no bit-array is allocated and
  \<open>CatchupCommitRound\<close> keeps its value, whatever \<open>votes.IsCommit()\<close> answers.
\<close>

theorem PickVoteToSend_empty:
  "vs_Size votes = 0 \<Longrightarrow> PickVoteToSend rnd votes (ps, h) = Inr ((None, False), (ps, h))"
  by (simp add: PickVoteToSend_def)

theorem PickVoteToSend_empty_witness:
  "PickVoteToSend 0
     \<lparr>vs_IsNil = False, vs_Height = 0, vs_Round = 0, vs_Type = VoteTypePrecommit, vs_Size = 0,
      vs_IsCommit = True, vs_BitArray = None, vs_GetByIndex = (\<lambda>i. None)\<rparr>
     (NewPeerState, [])
   = Inr ((None, False), (NewPeerState, []))"
  by (rule PickVoteToSend_empty) simp


section \<open>Transition to a new height\<close>

lemma Apply_new_height:
  assumes "sint (Height ps) < sint (nrs_Height msg)"
  shows "ApplyNewRoundStepMessage now msg ps =
     ps\<lparr>Height := nrs_Height msg, Round := nrs_Round msg, Step := nrs_Step msg,
        StartTime :=
          now + sint ((- 1) * nrs_SecondsSinceStartTime msg * (1000000000 :: 64 word)),
        Proposal := False, ProposalBlockPartsHeader := \<lparr>Total = 0, Hash = []\<rparr>,
        ProposalBlockParts := None, ProposalPOLRound := - 1, ProposalPOL := None,
        Prevotes := None, Precommits := None,
        LastCommitRound := nrs_LastCommitRound msg, LastCommit := None,
        CatchupCommitRound := - 1, CatchupCommit := None\<rparr>"
proof -
  from assms have ne: "Height ps \<noteq> nrs_Height msg" by auto
  from assms have c: "\<not> CompareHRS (nrs_Height msg) (nrs_Round msg) (nrs_Step msg)
           (Height ps) (Round ps) (Step ps) \<le> 0"
    by (simp add: CompareHRS_def)
  show ?thesis
    using ne c by (simp add: ApplyNewRoundStepMessage_def Let_def)
qed

text \<open>
  Claim C2, as amended. A \<open>NewRoundStepMessage\<close> with a greater height sets
  \<open>LastCommitRound\<close> to \<open>msg.LastCommitRound\<close>, \<open>Precommits\<close> and \<open>CatchupCommit\<close> to nil and
  \<open>CatchupCommitRound\<close> to -1; and \<open>LastCommit\<close> becomes nil whenever the new height is not
  the old one plus one, or the old round is not \<open>msg.LastCommitRound\<close>.
\<close>

theorem NewHeight_LastCommit:
  "sint (Height ps) < sint (nrs_Height msg) \<Longrightarrow>
     LastCommitRound (ApplyNewRoundStepMessage now msg ps) = nrs_LastCommitRound msg
     \<and> Precommits (ApplyNewRoundStepMessage now msg ps) = None
     \<and> CatchupCommitRound (ApplyNewRoundStepMessage now msg ps) = - 1
     \<and> CatchupCommit (ApplyNewRoundStepMessage now msg ps) = None
     \<and> (Height ps + 1 \<noteq> nrs_Height msg \<or> Round ps \<noteq> nrs_LastCommitRound msg
          \<longrightarrow> LastCommit (ApplyNewRoundStepMessage now msg ps) = None)"
  by (simp add: Apply_new_height)

theorem NewHeight_LastCommit_witness:
  "sint (Height scenario3_peer) < sint (nrs_Height (newHeightMessage 12))
   \<and> Height scenario3_peer + 1 \<noteq> nrs_Height (newHeightMessage 12)
   \<and> LastCommitRound (ApplyNewRoundStepMessage 0 (newHeightMessage 12) scenario3_peer) = 3
   \<and> Precommits (ApplyNewRoundStepMessage 0 (newHeightMessage 12) scenario3_peer) = None
   \<and> LastCommit (ApplyNewRoundStepMessage 0 (newHeightMessage 12) scenario3_peer) = None"
proof -
  have lt: "sint (Height scenario3_peer) < sint (nrs_Height (newHeightMessage 12))"
    by (simp add: scenario3_peer_def newHeightMessage_def)
  have ne: "Height scenario3_peer + 1 \<noteq> nrs_Height (newHeightMessage 12)"
    by (simp add: scenario3_peer_def newHeightMessage_def)
  from lt ne NewHeight_LastCommit [OF lt, of 0] show ?thesis
    by (simp add: newHeightMessage_def)
qed

text \<open>
  The claim as it is written fails two heights further: the height of the message is
  greater and the old round is \<open>msg.LastCommitRound\<close>, yet \<open>LastCommit\<close> is nil and not the
  old \<open>Precommits\<close>.
\<close>

theorem NewHeight_LastCommit_counterexample:
  "sint (Height scenario3_peer) < sint (nrs_Height (newHeightMessage 12))
   \<and> Round scenario3_peer = nrs_LastCommitRound (newHeightMessage 12)
   \<and> Precommits scenario3_peer = Some 0
   \<and> LastCommit (ApplyNewRoundStepMessage 0 (newHeightMessage 12) scenario3_peer) = None"
  by (simp add: ApplyNewRoundStepMessage_def CompareHRS_def scenario3_peer_def
      newHeightMessage_def NewPeerState_def Let_def)

text \<open>
  Scenario 3 itself, one height further: \<open>ps.LastCommit = ps.Precommits\<close> runs after
  \<open>ps.Precommits = nil\<close>, so the precommits of the old height are not kept.
\<close>

lemma scenario3_LastCommit:
  "Precommits scenario3_peer = Some 0
   \<and> LastCommit (ApplyNewRoundStepMessage now (newHeightMessage 11) scenario3_peer) = None
   \<and> LastCommitRound (ApplyNewRoundStepMessage now (newHeightMessage 11) scenario3_peer) = 3
   \<and> Precommits (ApplyNewRoundStepMessage now (newHeightMessage 11) scenario3_peer) = None"
  by (simp add: ApplyNewRoundStepMessage_def CompareHRS_def scenario3_peer_def
      newHeightMessage_def NewPeerState_def Let_def)

section \<open>Routing a vote\<close>

lemma getVoteBitArray_routing:
  "IsVoteTypeValid t \<Longrightarrow> getVoteBitArray H R t p = Inr (routing_in_order H R t p)"
  by (cases t) (auto simp: getVoteBitArray_def routing_in_order_def IsVoteTypeValid_def)

text \<open>
  Claim C4, as amended. For a valid vote type, \<open>SetHasVote\<close> leaves the fields of the peer
  state as they are and works on the bit-array that the matrix gives when its rows are
  tried in the order of the code, the round first and the type afterwards. When that
  bit-array is nil, nothing changes. When it is the cell \<open>a\<close> of the heap and the index of
  the vote is within its size, that bit of that cell is set and nothing else changes.
\<close>

theorem SetHasVote_routing:
  assumes "IsVoteTypeValid (vote_Type vote)"
  shows "(routing_in_order (vote_Height vote) (vote_Round vote) (vote_Type vote) p = None
            \<longrightarrow> SetHasVote vote (p, h) = Inr (p, h))
         \<and> (\<forall>a. routing_in_order (vote_Height vote) (vote_Round vote) (vote_Type vote) p
                    = Some a
                \<and> a < length h \<and> 0 \<le> sint (vote_ValidatorIndex vote)
                \<and> nat (sint (vote_ValidatorIndex vote)) < length (h ! a)
              \<longrightarrow> SetHasVote vote (p, h)
                    = Inr (p, h[a := (h ! a)[nat (sint (vote_ValidatorIndex vote)) := True]]))"
  using assms
  by (simp add: SetHasVote_def setHasVote_def getVoteBitArray_routing SetIndex_def
      setIndex_def)

theorem SetHasVote_routing_witness:
  "IsVoteTypeValid VoteTypePrevote
   \<and> routing_in_order 1 2 VoteTypePrevote (routing_peer\<lparr>Prevotes := Some 1\<rparr>) = Some 1
   \<and> SetHasVote \<lparr>vote_Height = 1, vote_Round = 2, vote_Type = VoteTypePrevote,
                  vote_ValidatorIndex = 1\<rparr>
        (routing_peer\<lparr>Prevotes := Some 1\<rparr>, [[False], [False, False]])
       = Inr (routing_peer\<lparr>Prevotes := Some 1\<rparr>, [[False], [False, True]])"
proof -
  have v: "IsVoteTypeValid (vote_Type \<lparr>vote_Height = 1, vote_Round = 2,
             vote_Type = VoteTypePrevote, vote_ValidatorIndex = 1\<rparr>)"
    by (simp add: IsVoteTypeValid_def)
  have r: "routing_in_order 1 2 VoteTypePrevote (routing_peer\<lparr>Prevotes := Some 1\<rparr>) = Some 1"
    by (simp add: routing_in_order_def routing_peer_def NewPeerState_def)
  from r SetHasVote_routing [OF v, of "routing_peer\<lparr>Prevotes := Some 1\<rparr>"
      "[[False], [False, False]]"]
  show ?thesis
    by (simp add: IsVoteTypeValid_def)
qed

text \<open>
  The claim as it is written fails for a prevote of round 0 at a peer of round 2 whose
  \<open>CatchupCommitRound\<close> and \<open>ProposalPOLRound\<close> are both 0: the matrix of the claim gives
  \<open>ProposalPOL\<close>, whose bit 0 would be set, and the code leaves the state as it is.
\<close>

theorem SetHasVote_routing_counterexample:
  "IsVoteTypeValid VoteTypePrevote
   \<and> routing_matrix 1 0 VoteTypePrevote routing_peer = Some 0
   \<and> SetIndex (Some 0) 0 True [[False]] = [[True]]
   \<and> SetHasVote \<lparr>vote_Height = 1, vote_Round = 0, vote_Type = VoteTypePrevote,
                  vote_ValidatorIndex = 0\<rparr> (routing_peer, [[False]])
       = Inr (routing_peer, [[False]])"
  by (simp add: IsVoteTypeValid_def routing_matrix_def routing_peer_def NewPeerState_def
      SetIndex_def setIndex_def SetHasVote_def setHasVote_def getVoteBitArray_def)

section \<open>The catch-up commit\<close>

lemma ensureCatchupCommitRound_cases:
  "ensureCatchupCommitRound H r n (p, h) =
     (if Height p \<noteq> H \<or> CatchupCommitRound p = r then (p, h)
      else if r = Round p
        then (p\<lparr>CatchupCommitRound := r, CatchupCommit := Precommits p\<rparr>, h)
      else (p\<lparr>CatchupCommitRound := r, CatchupCommit := Some (length h)\<rparr>,
            h @ [replicate (nat (sint n)) False]))"
  by (simp add: ensureCatchupCommitRound_def NewBitArray_def Let_def)

lemma allocIfNil_fst: "fst (allocIfNil p n h) = (if p = None then Some (length h) else p)"
  by (simp add: allocIfNil_def NewBitArray_def)

lemma ensureVoteBitArrays_fst:
  "fst (ensureVoteBitArrays H n (p, h)) =
     (if Height p = H then
        p\<lparr>Prevotes := fst (allocIfNil (Prevotes p) n h),
          Precommits := fst (allocIfNil (Precommits p) n (snd (allocIfNil (Prevotes p) n h))),
          CatchupCommit := fst (allocIfNil (CatchupCommit p) n
             (snd (allocIfNil (Precommits p) n (snd (allocIfNil (Prevotes p) n h))))),
          ProposalPOL := fst (allocIfNil (ProposalPOL p) n
             (snd (allocIfNil (CatchupCommit p) n
             (snd (allocIfNil (Precommits p) n (snd (allocIfNil (Prevotes p) n h)))))))\<rparr>
      else if Height p = H + 1 then p\<lparr>LastCommit := fst (allocIfNil (LastCommit p) n h)\<rparr>
      else p)"
  by (simp add: ensureVoteBitArrays_def split_beta)

lemma ensureVoteBitArrays_keeps:
  "CatchupCommitRound (fst (ensureVoteBitArrays H n (p, h))) = CatchupCommitRound p"
  "Height (fst (ensureVoteBitArrays H n (p, h))) = Height p"
  "Round (fst (ensureVoteBitArrays H n (p, h))) = Round p"
  "Precommits p = Some a \<Longrightarrow> Precommits (fst (ensureVoteBitArrays H n (p, h))) = Some a"
  "CatchupCommit p = Some a \<Longrightarrow> CatchupCommit (fst (ensureVoteBitArrays H n (p, h))) = Some a"
  by (simp_all add: ensureVoteBitArrays_fst allocIfNil_fst)

lemma getVoteBitArray_Inr:
  "IsVoteTypeValid t \<Longrightarrow> \<exists>x. getVoteBitArray H R t q = Inr x"
  by (cases t) (auto simp: getVoteBitArray_def IsVoteTypeValid_def)

lemma setHasVote_Inr:
  "IsVoteTypeValid t \<Longrightarrow> \<exists>h'. setHasVote H R t i (p, h) = Inr (p, h')"
  using getVoteBitArray_Inr [of t H R p] by (auto simp: setHasVote_def)

text \<open>With a valid vote type and a vote-set that is not empty, \<open>PickVoteToSend\<close> returns, and
  the fields of the peer state are those that the two \<open>ensure\<close> calls leave.\<close>

lemma PickVoteToSend_ps:
  assumes v: "IsVoteTypeValid (vs_Type votes)" and sz: "vs_Size votes \<noteq> 0"
  shows "\<exists>res h'. PickVoteToSend rnd votes w =
            Inr (res, fst (ensureVoteBitArrays (vs_Height votes) (vs_Size votes)
                        (if vs_IsCommit votes
                         then ensureCatchupCommitRound (vs_Height votes) (vs_Round votes)
                                (vs_Size votes) w
                         else w)), h')"
proof -
  define w2 where "w2 = ensureVoteBitArrays (vs_Height votes) (vs_Size votes)
                        (if vs_IsCommit votes
                         then ensureCatchupCommitRound (vs_Height votes) (vs_Round votes)
                                (vs_Size votes) w
                         else w)"
  obtain x where g:
    "getVoteBitArray (vs_Height votes) (vs_Round votes) (vs_Type votes) (fst w2) = Inr x"
    using getVoteBitArray_Inr [OF v] by blast
  have P: "PickVoteToSend rnd votes w =
     (case x of None \<Rightarrow> Inr ((None, False), w2)
      | Some a \<Rightarrow> (case PickRandom rnd (Sub (vs_BitArray votes) (snd w2 ! a)) of
                   (index, True) \<Rightarrow>
                     (case setHasVote (vs_Height votes) (vs_Round votes) (vs_Type votes)
                             index w2 of
                        Inl e \<Rightarrow> Inl e
                      | Inr w3 \<Rightarrow> Inr ((vs_GetByIndex votes index, True), w3))
                 | (index, False) \<Rightarrow> Inr ((None, False), w2)))"
    unfolding PickVoteToSend_def Let_def w2_def [symmetric] using sz g by simp
  show ?thesis
  proof (cases x)
    case None
    with P show ?thesis unfolding w2_def [symmetric] by (cases w2) auto
  next
    case (Some a)
    obtain index ok where
      pr: "PickRandom rnd (Sub (vs_BitArray votes) (snd w2 ! a)) = (index, ok)"
      by (cases "PickRandom rnd (Sub (vs_BitArray votes) (snd w2 ! a))")
    show ?thesis
    proof (cases ok)
      case False
      with P Some pr show ?thesis unfolding w2_def [symmetric] by (cases w2) auto
    next
      case True
      obtain h' where
        "setHasVote (vs_Height votes) (vs_Round votes) (vs_Type votes) index w2
           = Inr (fst w2, h')"
        using setHasVote_Inr [OF v, of "vs_Height votes" "vs_Round votes" index
            "fst w2" "snd w2"]
        by auto
      with P Some pr True show ?thesis unfolding w2_def [symmetric] by auto
    qed
  qed
qed

text \<open>
  Claim C5, as amended. \<open>ensureCatchupCommitRound(H, r, n)\<close> changes nothing when the
  peer is not at height \<open>H\<close>, and nothing when \<open>CatchupCommitRound\<close> is \<open>r\<close> already.
  Otherwise it sets \<open>CatchupCommitRound\<close> to \<open>r\<close>; when \<open>r\<close> is the round of the peer,
  \<open>CatchupCommit\<close> becomes the pointer \<open>Precommits\<close> itself, so both name one cell of the
  heap when \<open>Precommits\<close> is not nil; when it is not the round of the peer, \<open>CatchupCommit\<close>
  points to a new cell of \<open>n\<close> cleared bits, for a size \<open>n\<close> above 0. A peer at (10, 2)
  whose \<open>Precommits\<close> is the cell \<open>b\<close> and whose \<open>CatchupCommitRound\<close> is not yet 2 comes
  out of \<open>PickVoteToSend\<close>, called with a commit of round 2, with \<open>CatchupCommit\<close> and
  \<open>Precommits\<close> both pointing to \<open>b\<close>.
\<close>

theorem ensureCatchupCommitRound_spec:
  "(Height p \<noteq> H \<longrightarrow> ensureCatchupCommitRound H r n (p, h) = (p, h))
   \<and> (Height p = H \<and> CatchupCommitRound p = r
        \<longrightarrow> ensureCatchupCommitRound H r n (p, h) = (p, h))
   \<and> (Height p = H \<and> CatchupCommitRound p \<noteq> r \<and> r = Round p
        \<longrightarrow> ensureCatchupCommitRound H r n (p, h)
              = (p\<lparr>CatchupCommitRound := r, CatchupCommit := Precommits p\<rparr>, h))
   \<and> (Height p = H \<and> CatchupCommitRound p \<noteq> r \<and> r \<noteq> Round p \<and> 0 < sint n
        \<longrightarrow> ensureCatchupCommitRound H r n (p, h)
              = (p\<lparr>CatchupCommitRound := r, CatchupCommit := Some (length h)\<rparr>,
                 h @ [replicate (nat (sint n)) False]))
   \<and> (Height p = 10 \<and> Round p = 2 \<and> Precommits p = Some b \<and> CatchupCommitRound p \<noteq> 2
        \<and> vs_IsCommit votes \<and> vs_Height votes = 10 \<and> vs_Round votes = 2
        \<and> vs_Type votes = VoteTypePrecommit \<and> vs_Size votes \<noteq> 0
        \<longrightarrow> (\<exists>res p' h'. PickVoteToSend rnd votes (p, h) = Inr (res, p', h')
               \<and> CatchupCommitRound p' = 2
               \<and> CatchupCommit p' = Some b \<and> Precommits p' = Some b))"
proof -
  have scen: "\<exists>res p' h'. PickVoteToSend rnd votes (p, h) = Inr (res, p', h')
               \<and> CatchupCommitRound p' = 2
               \<and> CatchupCommit p' = Some b \<and> Precommits p' = Some b"
    if a: "Height p = 10" "Round p = 2" "Precommits p = Some b" "CatchupCommitRound p \<noteq> 2"
      "vs_IsCommit votes" "vs_Height votes = 10" "vs_Round votes = 2"
      "vs_Type votes = VoteTypePrecommit" "vs_Size votes \<noteq> 0"
  proof -
    have v: "IsVoteTypeValid (vs_Type votes)" using a by (simp add: IsVoteTypeValid_def)
    have e: "ensureCatchupCommitRound (vs_Height votes) (vs_Round votes) (vs_Size votes) (p, h)
          = (p\<lparr>CatchupCommitRound := 2, CatchupCommit := Some b\<rparr>, h)"
      using a by (simp add: ensureCatchupCommitRound_cases)
    from PickVoteToSend_ps [OF v a(9), of rnd "(p, h)"] a(5) e
    obtain res h' where "PickVoteToSend rnd votes (p, h) =
        Inr (res, fst (ensureVoteBitArrays (vs_Height votes) (vs_Size votes)
               (p\<lparr>CatchupCommitRound := 2, CatchupCommit := Some b\<rparr>, h)), h')"
      by auto
    then show ?thesis using a(3) by (simp add: ensureVoteBitArrays_keeps)
  qed
  show ?thesis
  proof (intro conjI impI)
    assume "Height p = 10 \<and> Round p = 2 \<and> Precommits p = Some b \<and> CatchupCommitRound p \<noteq> 2
        \<and> vs_IsCommit votes \<and> vs_Height votes = 10 \<and> vs_Round votes = 2
        \<and> vs_Type votes = VoteTypePrecommit \<and> vs_Size votes \<noteq> 0"
    then show "\<exists>res p' h'. PickVoteToSend rnd votes (p, h) = Inr (res, p', h')
               \<and> CatchupCommitRound p' = 2
               \<and> CatchupCommit p' = Some b \<and> Precommits p' = Some b"
      using scen by blast
  qed (auto simp add: ensureCatchupCommitRound_cases)
qed

theorem ensureCatchupCommitRound_spec_witness:
  "Height scenario4_peer = 10 \<and> Round scenario4_peer = 2
   \<and> Precommits scenario4_peer = Some 0 \<and> CatchupCommitRound scenario4_peer \<noteq> 2
   \<and> vs_IsCommit scenario4_commit \<and> vs_Size scenario4_commit \<noteq> 0
   \<and> ensureCatchupCommitRound 10 2 2 (scenario4_peer, [[False, False]])
       = (scenario4_peer\<lparr>CatchupCommitRound := 2, CatchupCommit := Some 0\<rparr>, [[False, False]])
   \<and> ensureCatchupCommitRound 10 1 2 (scenario4_peer, [[False, False]])
       = (scenario4_peer\<lparr>CatchupCommitRound := 1, CatchupCommit := Some 1\<rparr>,
          [[False, False], [False, False]])
   \<and> (\<exists>res p' h'. PickVoteToSend 0 scenario4_commit (scenario4_peer, [[False, False]])
                     = Inr (res, p', h')
         \<and> CatchupCommitRound p' = 2 \<and> CatchupCommit p' = Some 0 \<and> Precommits p' = Some 0)"
proof -
  have f: "Height scenario4_peer = 10" "Round scenario4_peer = 2"
    "Precommits scenario4_peer = Some 0" "CatchupCommitRound scenario4_peer \<noteq> 2"
    "vs_IsCommit scenario4_commit" "vs_Height scenario4_commit = 10"
    "vs_Round scenario4_commit = 2" "vs_Type scenario4_commit = VoteTypePrecommit"
    "vs_Size scenario4_commit \<noteq> 0"
    by (simp_all add: scenario4_peer_def scenario4_commit_def NewPeerState_def)
  have g: "CatchupCommitRound scenario4_peer \<noteq> 1" "(1::go_int) \<noteq> Round scenario4_peer"
    "0 < sint (2::go_int)"
    by (simp_all add: scenario4_peer_def NewPeerState_def)
  from f g ensureCatchupCommitRound_spec [of scenario4_peer 10 2 2 "[[False, False]]" 0
      scenario4_commit 0]
    ensureCatchupCommitRound_spec [of scenario4_peer 10 1 2 "[[False, False]]" 0
      scenario4_commit 0]
  show ?thesis by (simp add: numeral_2_eq_2)
qed


text \<open>
  The claim as it is written fails for a peer at (10, 2) whose \<open>Precommits\<close> is still nil,
  as it is after every change of round: \<open>CatchupCommit\<close> is first set to that nil pointer,
  and \<open>ensureVoteBitArrays\<close> then allocates one bit-array for \<open>Precommits\<close> (cell 1) and
  another for \<open>CatchupCommit\<close> (cell 2). The vote that is picked is marked in cell 1 only.
\<close>

theorem ensureCatchupCommitRound_spec_counterexample:
  "PickVoteToSend 0 scenario4_commit (NewPeerState\<lparr>Height := 10, Round := 2\<rparr>, [])
     = Inr ((Some \<lparr>vote_Height = 10, vote_Round = 2, vote_Type = VoteTypePrecommit,
                    vote_ValidatorIndex = 0\<rparr>, True),
            NewPeerState\<lparr>Height := 10, Round := 2, Prevotes := Some 0, Precommits := Some 1,
                         CatchupCommitRound := 2, CatchupCommit := Some 2,
                         ProposalPOL := Some 3\<rparr>,
            [[False, False], [True, False], [False, False], [False, False]])"
  by (simp add: PickVoteToSend_def scenario4_commit_def NewPeerState_def
      ensureCatchupCommitRound_def ensureVoteBitArrays_def allocIfNil_def
      NewBitArray_def getVoteBitArray_def IsVoteTypeValid_def Sub_def PickRandom_def
      setHasVote_def SetIndex_def setIndex_def Let_def numeral_2_eq_2)

section \<open>The snapshot of GetRoundState\<close>

lemma mutate_structs:
  "q \<noteq> ps \<Longrightarrow> structs (mutate q st m) ! ps = structs st ! ps"
  by (cases m) simp_all

lemma mutate_arrays: "isAssignField m \<Longrightarrow> arrays (mutate q st m) = arrays st"
  by (cases m) simp_all

lemma foldl_mutate_structs:
  "q \<noteq> ps \<Longrightarrow> structs (foldl (mutate q) st ms) ! ps = structs st ! ps"
  by (induction ms arbitrary: st) (simp_all add: mutate_structs)

lemma foldl_mutate_arrays:
  "list_all isAssignField ms \<Longrightarrow> arrays (foldl (mutate q) st ms) = arrays st"
  by (induction ms arbitrary: st) (simp_all add: mutate_arrays)

text \<open>
  Claim C6, as amended. \<open>GetRoundState\<close> returns a new struct with the fields of the peer
  state. Whatever the caller does with it, the fields of the peer state keep their
  values; and when the caller only assigns to fields of the copy, the bit-arrays of the
  peer state keep their contents too. The pointers are copied, not the bit-arrays.
\<close>

theorem GetRoundState_copy:
  assumes "ps < length (structs st)"
  shows "fst (GetRoundState ps st) \<noteq> ps
     \<and> structs (snd (GetRoundState ps st)) ! fst (GetRoundState ps st) = structs st ! ps
     \<and> structs (foldl (mutate (fst (GetRoundState ps st))) (snd (GetRoundState ps st)) ms) ! ps
         = structs st ! ps
     \<and> (list_all isAssignField ms \<longrightarrow>
          peer_view ps (foldl (mutate (fst (GetRoundState ps st))) (snd (GetRoundState ps st)) ms)
            = peer_view ps st)"
proof -
  let ?q = "fst (GetRoundState ps st)" and ?st = "snd (GetRoundState ps st)"
  have q: "?q = length (structs st)"
    and st': "?st = st\<lparr>structs := structs st @ [structs st ! ps]\<rparr>"
    by (simp_all add: GetRoundState_def Let_def)
  from assms q have ne: "?q \<noteq> ps" by simp
  have s0: "structs ?st ! ps = structs st ! ps"
    using assms by (simp add: st' nth_append)
  have s1: "structs (foldl (mutate ?q) ?st ms) ! ps = structs st ! ps"
    using foldl_mutate_structs [OF ne, of ?st ms] s0 by simp
  have a1: "list_all isAssignField ms \<Longrightarrow> arrays (foldl (mutate ?q) ?st ms) = arrays st"
    using foldl_mutate_arrays [of ms ?q ?st] by (simp add: st')
  show ?thesis
    using ne s1 a1 by (simp add: peer_view_def Let_def q st')
qed

theorem GetRoundState_copy_witness:
  "(0::nat) < length (structs snapshot_store)
   \<and> list_all isAssignField [AssignField (\<lambda>s. s\<lparr>Height := 7, Prevotes := None\<rparr>)]
   \<and> peer_view 0 (foldl (mutate (fst (GetRoundState 0 snapshot_store)))
                    (snd (GetRoundState 0 snapshot_store))
                    [AssignField (\<lambda>s. s\<lparr>Height := 7, Prevotes := None\<rparr>)])
       = peer_view 0 snapshot_store"
proof -
  have l: "(0::nat) < length (structs snapshot_store)" by (simp add: snapshot_store_def)
  have a: "list_all isAssignField [AssignField (\<lambda>s. s\<lparr>Height := 7, Prevotes := None\<rparr>)]"
    by simp
  from GetRoundState_copy [OF l, of "[AssignField (\<lambda>s. s\<lparr>Height := 7, Prevotes := None\<rparr>)]"]
  have "list_all isAssignField [AssignField (\<lambda>s. s\<lparr>Height := 7, Prevotes := None\<rparr>)] \<longrightarrow>
      peer_view 0 (foldl (mutate (fst (GetRoundState 0 snapshot_store)))
                    (snd (GetRoundState 0 snapshot_store))
                    [AssignField (\<lambda>s. s\<lparr>Height := 7, Prevotes := None\<rparr>)])
       = peer_view 0 snapshot_store"
    by blast
  with l a show ?thesis by blast
qed

text \<open>
  The claim as it is written fails: the caller sets bit 0 of the \<open>Prevotes\<close> of the
  snapshot, and the prevotes of the peer state have changed, since both structs point to
  the one bit-array.
\<close>

theorem GetRoundState_copy_counterexample:
  "fst (GetRoundState 0 snapshot_store) = 1
   \<and> peer_view 0 (foldl (mutate 1) (snd (GetRoundState 0 snapshot_store))
                    [SetBit Prevotes 0 True])
       \<noteq> peer_view 0 snapshot_store"
  by (simp add: GetRoundState_def snapshot_store_def peer_view_def deref_def SetIndex_def
      setIndex_def Let_def NewPeerState_def)

section \<open>Flushing the buffer of transaction events\<close>

lemma runCalls_publish:
  "runCalls nxt (map CallPublishEventTx es) (b, s) = (b\<lparr>events := events b @ es\<rparr>, s)"
  by (induction es arbitrary: b) (simp_all add: PublishEventTx_def)

lemma logged_apply:
  "logged nxt e (s, l) = (case nxt e s of (r, s') \<Rightarrow> (r, s', l @ [(e, r)]))"
  by (simp add: logged_def)

lemma flushLoop_logged:
  "flushLoop (logged nxt) es (s, l) = (r, s', l') \<Longrightarrow>
     (r = None \<longrightarrow> l' = l @ map (\<lambda>e. (e, None)) es)
     \<and> (\<forall>err. r = Some err \<longrightarrow>
           (\<exists>pre e post. es = pre @ e # post
               \<and> l' = l @ map (\<lambda>e. (e, None)) pre @ [(e, Some err)]))"
proof (induction es arbitrary: s l)
  case Nil
  then show ?case by simp
next
  case (Cons x xs)
  obtain r1 s1 where n: "nxt x s = (r1, s1)" by (cases "nxt x s")
  show ?case
  proof (cases r1)
    case None
    with n Cons.prems have "flushLoop (logged nxt) xs (s1, l @ [(x, None)]) = (r, s', l')"
      by (simp add: logged_apply)
    from Cons.IH [OF this]
    have ih1: "r = None \<longrightarrow> l' = (l @ [(x, None)]) @ map (\<lambda>e. (e, None)) xs"
      and ih2: "\<forall>err. r = Some err \<longrightarrow>
           (\<exists>pre e post. xs = pre @ e # post
               \<and> l' = (l @ [(x, None)]) @ map (\<lambda>e. (e, None)) pre @ [(e, Some err)])"
      by blast+
    show ?thesis
    proof (intro conjI impI allI)
      assume "r = None"
      with ih1 show "l' = l @ map (\<lambda>e. (e, None)) (x # xs)" by simp
    next
      fix err assume "r = Some err"
      with ih2 obtain pre e post where "xs = pre @ e # post"
        "l' = (l @ [(x, None)]) @ map (\<lambda>e. (e, None)) pre @ [(e, Some err)]"
        by blast
      then have "x # xs = (x # pre) @ e # post
          \<and> l' = l @ map (\<lambda>e. (e, None)) (x # pre) @ [(e, Some err)]"
        by simp
      then show "\<exists>pre e post. x # xs = pre @ e # post
          \<and> l' = l @ map (\<lambda>e. (e, None)) pre @ [(e, Some err)]"
        by blast
    qed
  next
    case (Some err)
    with n Cons.prems have "r = Some err" "l' = l @ [(x, Some err)]"
      by (auto simp add: logged_apply)
    then have "x # xs = [] @ x # xs \<and> l' = l @ map (\<lambda>e. (e, None)) [] @ [(x, Some err)]"
      by simp
    with \<open>r = Some err\<close> show ?thesis by blast
  qed
qed

lemma Flush_logged:
  assumes "Flush (logged nxt) b (s, l) = (r, b', s', l')"
  shows "(r = None \<longrightarrow> b' = b\<lparr>events := []\<rparr> \<and> l' = l @ map (\<lambda>e. (e, None)) (events b))
     \<and> (\<forall>err. r = Some err \<longrightarrow> b' = b
           \<and> (\<exists>pre e post. events b = pre @ e # post
               \<and> l' = l @ map (\<lambda>e. (e, None)) pre @ [(e, Some err)]))"
proof -
  obtain r0 s0 l0 where f: "flushLoop (logged nxt) (events b) (s, l) = (r0, s0, l0)"
    by (cases "flushLoop (logged nxt) (events b) (s, l)")
  have e: "r = r0 \<and> s' = s0 \<and> l' = l0
      \<and> (r0 = None \<longrightarrow> b' = b\<lparr>events := []\<rparr>) \<and> (\<forall>err. r0 = Some err \<longrightarrow> b' = b)"
  proof (cases r0)
    case None
    with assms f show ?thesis by (simp add: Flush_def)
  next
    case (Some err)
    with assms f show ?thesis by (auto simp add: Flush_def)
  qed
  from flushLoop_logged [OF f] have
    "(r0 = None \<longrightarrow> l0 = l @ map (\<lambda>e. (e, None)) (events b))
     \<and> (\<forall>err. r0 = Some err \<longrightarrow>
           (\<exists>pre e post. events b = pre @ e # post
               \<and> l0 = l @ map (\<lambda>e. (e, None)) pre @ [(e, Some err)]))" .
  with e show ?thesis by simp
qed

text \<open>
  Claim C7. A sequence of \<open>PublishEventTx\<close> calls appends the events to the buffer and the
  publisher receives no call. \<open>Flush\<close> hands the buffered events to the publisher in the
  order of insertion. When all succeed, \<open>Flush\<close> returns nil, the buffer is empty, and a
  second \<open>Flush\<close> makes no call. When a call returns an error, \<open>Flush\<close> returns that
  error, the events after it have not been handed over, and the buffer is what it was.
\<close>

theorem TxEventBuffer_Flush:
  "runCalls (logged nxt) (map CallPublishEventTx es) (b, s, l)
     = (b\<lparr>events := events b @ es\<rparr>, s, l)
   \<and> (Flush (logged nxt) b (s, l) = (r, b', s', l') \<longrightarrow>
        (r = None \<longrightarrow> b' = b\<lparr>events := []\<rparr> \<and> l' = l @ map (\<lambda>e. (e, None)) (events b))
        \<and> (\<forall>err. r = Some err \<longrightarrow> b' = b
              \<and> (\<exists>pre e post. events b = pre @ e # post
                    \<and> l' = l @ map (\<lambda>e. (e, None)) pre @ [(e, Some err)])))
   \<and> (Flush (logged nxt) b (s, l) = (None, b', s', l') \<longrightarrow>
        Flush (logged nxt) b' (s', l') = (None, b', s', l'))"
proof -
  have 1: "runCalls (logged nxt) (map CallPublishEventTx es) (b, s, l)
     = (b\<lparr>events := events b @ es\<rparr>, s, l)"
    by (rule runCalls_publish)
  have 2: "Flush (logged nxt) b (s, l) = (r, b', s', l') \<longrightarrow>
        (r = None \<longrightarrow> b' = b\<lparr>events := []\<rparr> \<and> l' = l @ map (\<lambda>e. (e, None)) (events b))
        \<and> (\<forall>err. r = Some err \<longrightarrow> b' = b
              \<and> (\<exists>pre e post. events b = pre @ e # post
                    \<and> l' = l @ map (\<lambda>e. (e, None)) pre @ [(e, Some err)]))"
    by (rule impI) (rule Flush_logged)
  have 3: "Flush (logged nxt) b (s, l) = (None, b', s', l') \<longrightarrow>
        Flush (logged nxt) b' (s', l') = (None, b', s', l')"
  proof
    assume a: "Flush (logged nxt) b (s, l) = (None, b', s', l')"
    from Flush_logged [OF a] have "b' = b\<lparr>events := []\<rparr>" by simp
    then show "Flush (logged nxt) b' (s', l') = (None, b', s', l')"
      by (simp add: Flush_def)
  qed
  from 1 2 3 show ?thesis by (intro conjI)
qed

text \<open>
  Scenario 7 of the specification: three transactions are published and nothing
  reaches the publisher; \<open>Flush\<close> hands over the three, in order; a second \<open>Flush\<close> hands
  over nothing. And with a publisher that refuses the second one, \<open>Flush\<close> stops there
  and the buffer keeps its three events.
\<close>

theorem TxEventBuffer_Flush_witness:
  "runCalls (logged alwaysNil) (map CallPublishEventTx [''tx1'', ''tx2'', ''tx3''])
       (NewTxEventBuffer, (), [])
     = (\<lparr>events = [''tx1'', ''tx2'', ''tx3'']\<rparr>, (), [])
   \<and> Flush (logged alwaysNil) \<lparr>events = [''tx1'', ''tx2'', ''tx3'']\<rparr> ((), [])
     = (None, \<lparr>events = []\<rparr>, (), [(''tx1'', None), (''tx2'', None), (''tx3'', None)])
   \<and> Flush (logged alwaysNil) \<lparr>events = []\<rparr>
         ((), [(''tx1'', None), (''tx2'', None), (''tx3'', None)])
     = (None, \<lparr>events = []\<rparr>, (), [(''tx1'', None), (''tx2'', None), (''tx3'', None)])
   \<and> Flush (logged (failsOn ''tx2'')) \<lparr>events = [''tx1'', ''tx2'', ''tx3'']\<rparr> ((), [])
     = (Some ''refused'', \<lparr>events = [''tx1'', ''tx2'', ''tx3'']\<rparr>, (),
        [(''tx1'', None), (''tx2'', Some ''refused'')])"
proof -
  have f: "Flush (logged alwaysNil) \<lparr>events = [''tx1'', ''tx2'', ''tx3'']\<rparr> ((), [])
     = (None, \<lparr>events = []\<rparr>, (), [(''tx1'', None), (''tx2'', None), (''tx3'', None)])"
    by (simp add: Flush_def logged_apply alwaysNil_def)
  have g: "Flush (logged (failsOn ''tx2'')) \<lparr>events = [''tx1'', ''tx2'', ''tx3'']\<rparr> ((), [])
     = (Some ''refused'', \<lparr>events = [''tx1'', ''tx2'', ''tx3'']\<rparr>, (),
        [(''tx1'', None), (''tx2'', Some ''refused'')])"
    by (simp add: Flush_def logged_apply failsOn_def)
  from f g TxEventBuffer_Flush [of alwaysNil "[''tx1'', ''tx2'', ''tx3'']"
      NewTxEventBuffer "()" "[]"]
    TxEventBuffer_Flush [of alwaysNil "[]" "\<lparr>events = [''tx1'', ''tx2'', ''tx3'']\<rparr>" "()" "[]"
      None "\<lparr>events = []\<rparr>" "()" "[(''tx1'', None), (''tx2'', None), (''tx3'', None)]"]
  show ?thesis by (simp add: NewTxEventBuffer_def)
qed


section \<open>The order of the sends of gossipVotesForHeight\<close>








section \<open>DecodeMessage on an empty input\<close>

text \<open>
  Claim C3. The claim has \<open>DecodeMessage\<close> return an error on every input that is not a
  message, and never panic. On the empty byte string the code panics: it reads \<open>bz[0]\<close>
  before anything else.
\<close>

theorem DecodeMessage_empty_panics: "DecodeMessage body [] = Inl IndexOutOfRange"
  by (simp add: DecodeMessage_def)

text \<open>On an input that is not empty the function returns; and it returns an error for
  an unknown tag and for an input longer than the limit.\<close>

lemma DecodeMessage_nonempty:
  "DecodeMessage body (t # bs) = Inr (t, ReadBinary body (t # bs) maxConsensusMessageSize)"
  by (simp add: DecodeMessage_def split: prod.splits)

lemma DecodeMessage_errors:
  "t \<notin> set registeredTypes \<or> maxConsensusMessageSize < length (t # bs) \<Longrightarrow>
     \<exists>e. DecodeMessage body (t # bs) = Inr (t, None, Some e)"
  by (auto simp: DecodeMessage_def ReadBinary_def)

lemma DecodeMessage_unknown_tag:
  "DecodeMessage body [0xEE, 0, 1] = Inr (0xEE, None, Some ErrUnknownType)"
  by (simp add: DecodeMessage_def ReadBinary_def registeredTypes_def msgTypeNewRoundStep_def
      msgTypeCommitStep_def msgTypeProposal_def msgTypeProposalPOL_def msgTypeBlockPart_def
      msgTypeVote_def msgTypeHasVote_def msgTypeVoteSetMaj23_def msgTypeVoteSetBits_def
      msgTypeProposalHeartbeat_def)

section \<open>The timeout of BroadcastTxCommit\<close>



end
